theory Spec2Isabelle
  imports Main "HOL-Library.AList"
begin

section \<open>The logging facility\<close>

text \<open>
  \<^verbatim>\<open>enum LogLevel { Debug, Info, Warn, Error, Fatal }\<close>: a TypeScript numeric enum, whose
  members are the numbers 0 to 4; \<open>level >= this.defaultLevel\<close> compares those numbers.
\<close>

datatype LogLevel = Debug | Info | Warn | Error | Fatal

fun levelValue :: "LogLevel \<Rightarrow> nat" where
  "levelValue Debug = 0"
| "levelValue Info = 1"
| "levelValue Warn = 2"
| "levelValue Error = 3"
| "levelValue Fatal = 4"

text \<open>
  The fields of \<open>Logger\<close>. An appender is an object behind the interface \<open>IAppender\<close>; the
  model keeps a handle of any type \<open>'a\<close> for it and returns, from a logging call, the list
  of the calls \<open>appender.log(level, args)\<close> that the call makes, in the order it makes them.
\<close>

record 'a Logger =
  appenders :: "'a list"
  defaultLevel :: LogLevel

definition newLogger :: "'a Logger" where
  "newLogger = \<lparr>appenders = [], defaultLevel = Info\<rparr>"

definition addAppender :: "'a \<Rightarrow> 'a Logger \<Rightarrow> 'a Logger" where
  "addAppender appender this = this\<lparr>appenders := appenders this @ [appender]\<rparr>"

text \<open>
  \<open>Logger._log\<close>. The level may be \<open>null\<close> (\<open>None\<close>), and is then the default level. The test
  against the default level sits inside the \<open>forEach\<close>, once for every appender.
\<close>

definition Logger_log :: "'a Logger \<Rightarrow> LogLevel option \<Rightarrow> 'v list \<Rightarrow> ('a \<times> LogLevel \<times> 'v list) list" where
  "Logger_log this level args =
     (let level = (case level of None \<Rightarrow> defaultLevel this | Some l \<Rightarrow> l)
      in concat (map (\<lambda>appender.
           if levelValue level \<ge> levelValue (defaultLevel this) then [(appender, level, args)] else [])
         (appenders this)))"

definition debug :: "'a Logger \<Rightarrow> 'v list \<Rightarrow> ('a \<times> LogLevel \<times> 'v list) list" where
  "debug this args = Logger_log this (Some Debug) args"

definition info :: "'a Logger \<Rightarrow> 'v list \<Rightarrow> ('a \<times> LogLevel \<times> 'v list) list" where
  "info this args = Logger_log this (Some Info) args"

definition warn :: "'a Logger \<Rightarrow> 'v list \<Rightarrow> ('a \<times> LogLevel \<times> 'v list) list" where
  "warn this args = Logger_log this (Some Warn) args"

definition error :: "'a Logger \<Rightarrow> 'v list \<Rightarrow> ('a \<times> LogLevel \<times> 'v list) list" where
  "error this args = Logger_log this (Some Error) args"

definition fatal :: "'a Logger \<Rightarrow> 'v list \<Rightarrow> ('a \<times> LogLevel \<times> 'v list) list" where
  "fatal this args = Logger_log this (Some Fatal) args"

text \<open>A logger to which the appenders \<open>as\<close> were added one after the other.\<close>

definition withAppenders :: "'a list \<Rightarrow> 'a Logger \<Rightarrow> 'a Logger" where
  "withAppenders as this = foldl (\<lambda>lg a. addAppender a lg) this as"



section \<open>Components, messages and the store\<close>

text \<open>
  Objects are held in a store and named by their address, so that two references to one
  object are equal addresses and a copy is another address. Entities and components have
  a store each. Every address of a store holds an object; the addresses below the
  allocation counter are the ones handed out so far.
\<close>

type_synonym ComponentType = string

type_synonym Engine = nat

text \<open>
  Modelled from the spec: the \<open>Component\<close> contract (\<open>./Component\<close> is imported by the
  source and is not part of it). A component has a \<open>type\<close>, here \<open>ctype\<close>, an \<open>owner\<close>
  (an entity or none) and the optional hooks \<open>onAdd\<close> and \<open>onRemove\<close>, whose presence the
  source tests before calling them; the two booleans say whether the hook is there. The
  source calls \<open>clone()\<close> without such a test. These are all the members of a component
  that the model knows.
\<close>

record Component =
  ctype :: ComponentType
  owner :: "nat option"
  onAdd :: bool
  onRemove :: bool

text \<open>
  \<open>ComponentMap = { [type: string]: Component }\<close>: the own properties of the object behind
  the proxy, in the order of their creation, each holding the address of a component.
\<close>

type_synonym ComponentMap = "(ComponentType \<times> nat) list"

text \<open>
  The object behind the proxy is created as \<open>{}\<close>: its prototype is \<open>Object.prototype\<close>. The
  prototype becomes a component when that component is assigned to the key \<open>__proto__\<close>.
\<close>

datatype Proto = ObjectPrototype | ComponentPrototype nat

text \<open>
  What \<open>this.components[key]\<close> can read: a component (an own property, or the prototype read
  through \<open>__proto__\<close>), or a member that the object inherits: a built-in member of
  \<open>Object.prototype\<close> under its name, \<open>Object.prototype\<close> itself (through \<open>__proto__\<close>), and,
  from a component that is the prototype, its \<open>type\<close> (a string), its \<open>owner\<close> (an entity
  or \<open>null\<close>) and its methods.
\<close>

datatype Value =
    Undefined
  | Null
  | Text string
  | Comp nat
  | Ent nat
  | Builtin string
  | Method nat string
  | ThePrototype

fun truthy :: "Value \<Rightarrow> bool" where
  "truthy Undefined = False"
| "truthy Null = False"
| "truthy (Text s) = (s \<noteq> [])"
| "truthy v = True"

record EntityComponent =
  component :: nat
  entity :: nat

text \<open>
  The two messages of the source. \<open>RemovedOther v e\<close> is a \<open>RemovedComponent\<close> message of the
  entity \<open>e\<close> whose \<open>component\<close> is not a component but the inherited value \<open>v\<close>.
\<close>

datatype Message =
    AddedComponent EntityComponent
  | RemovedComponent EntityComponent
  | RemovedOther Value nat

fun messageType :: "Message \<Rightarrow> string" where
  "messageType (AddedComponent d) = ''Component Added''"
| "messageType (RemovedComponent d) = ''Component Removed''"
| "messageType (RemovedOther v e) = ''Component Removed''"

definition isAddedComponent :: "Message \<Rightarrow> bool" where
  "isAddedComponent x = (messageType x = ''Component Added'')"

definition isRemovedComponent :: "Message \<Rightarrow> bool" where
  "isRemovedComponent x = (messageType x = ''Component Removed'')"

text \<open>
  Subscribers of the change channel, component hooks, the overridable \<open>onInitialize\<close> and
  the listeners of the base class are code outside the source. The model records every
  call made to them, in the order of the calls, as an event of the trace. An event for a
  subscriber or a component hook carries what the callee can read at that moment: the
  own entries of the entity's component map and the component's owner. The callees are
  taken to observe only: they change neither store.
\<close>

record View =
  seenComponents :: ComponentMap
  seenOwner :: "nat option"

datatype Event =
    Notified nat Message View
  | CalledOnAdd nat nat View
  | CalledOnRemove nat nat View
  | CalledOnInitialize nat Engine
  | Emitted nat string Engine

text \<open>
  The fields of \<open>Entity\<close>: \<open>id\<close> (here \<open>eid\<close>), \<open>components\<close> (the own properties of the object
  behind the proxy, and its prototype) and \<open>_isInitialized\<close>. The channel \<open>changes\<close> of an
  entity is the part of the trace that is tagged with its address.
\<close>

record Entity =
  eid :: nat
  components :: ComponentMap
  proto :: Proto
  isInitialized :: bool

text \<open>
  The program state: the static counter \<open>Entity._ID\<close>, a JavaScript number; the two stores
  with their allocation counters; the trace; the ids given out by the constructor so far,
  in order; the objects outside the component store on which \<open>owner = null\<close> was written,
  in order; and a mark that is set when a call goes on through inherited members where
  the embedding does not follow it (see \<open>removeKey\<close>, \<open>addComponent\<close> and \<open>clone\<close>): the state
  is then the one in which the embedding left the call.
\<close>

record World =
  Entity_ID :: nat
  entityNext :: nat
  entities :: "nat \<Rightarrow> Entity"
  heap :: "nat \<Rightarrow> Component"
  heapNext :: nat
  trace :: "Event list"
  created :: "nat list"
  outside :: "Value list"
  unfollowed :: bool

datatype error = TypeError


section \<open>Reading through the prototype\<close>

text \<open>
  The string-named members of \<open>Object.prototype\<close>, those of Annex B included. All are
  writable data properties holding functions, but \<open>__proto__\<close>, which is an accessor: its
  getter returns the prototype of the object it is read on, its setter replaces it.
\<close>

definition objectPrototypeMembers :: "string list" where
  "objectPrototypeMembers =
     [''constructor'', ''hasOwnProperty'', ''isPrototypeOf'', ''propertyIsEnumerable'',
      ''toLocaleString'', ''toString'', ''valueOf'', ''__defineGetter__'', ''__defineSetter__'',
      ''__lookupGetter__'', ''__lookupSetter__'', ''__proto__'']"

text \<open>
  \<open>Object.prototype\<close> has a property \<open>owner\<close>, holding \<open>null\<close>, once \<open>owner = null\<close> was written
  on it.
\<close>

definition polluted :: "World \<Rightarrow> bool" where
  "polluted w = (ThePrototype \<in> set (outside w))"

text \<open>
  The member that an object with the given prototype inherits under a key, if it inherits
  one. A component that is the prototype gives its own members first: \<open>type\<close>, \<open>owner\<close>,
  \<open>clone\<close> and the hooks it has.
\<close>

definition inherited :: "Proto \<Rightarrow> string \<Rightarrow> World \<Rightarrow> Value option" where
  "inherited pr k w =
     (case pr of
        ObjectPrototype \<Rightarrow>
          (if k = ''__proto__'' then Some ThePrototype
           else if k \<in> set objectPrototypeMembers then Some (Builtin k)
           else if k = ''owner'' \<and> polluted w then Some Null
           else None)
      | ComponentPrototype p \<Rightarrow>
          (if k = ''__proto__'' then Some (Comp p)
           else if k = ''type'' then Some (Text (ctype (heap w p)))
           else if k = ''owner'' then
             Some (case owner (heap w p) of None \<Rightarrow> Null | Some e \<Rightarrow> Ent e)
           else if k = ''clone'' then Some (Method p k)
           else if k = ''onAdd'' \<and> onAdd (heap w p) then Some (Method p k)
           else if k = ''onRemove'' \<and> onRemove (heap w p) then Some (Method p k)
           else if k \<in> set objectPrototypeMembers then Some (Builtin k)
           else None))"

text \<open>\<open>this.components[k]\<close>: the own property if there is one, else the inherited member.\<close>

definition readKey :: "nat \<Rightarrow> string \<Rightarrow> World \<Rightarrow> Value" where
  "readKey this k w =
     (case map_of (components (entities w this)) k of
        Some c \<Rightarrow> Comp c
      | None \<Rightarrow>
          (case inherited (proto (entities w this)) k w of
             Some v \<Rightarrow> v
           | None \<Rightarrow> Undefined))"

text \<open>\<open>k in obj\<close>, for the object behind the proxy.\<close>

definition inObject :: "nat \<Rightarrow> string \<Rightarrow> World \<Rightarrow> bool" where
  "inObject this k w =
     (map_of (components (entities w this)) k \<noteq> None \<or>
      inherited (proto (entities w this)) k w \<noteq> None)"


section \<open>Enumeration of property keys\<close>

text \<open>
  \<open>Object.keys\<close> and \<open>for...in\<close> list the own keys that are array indices first, in ascending
  numeric order, then the other keys in the order of their creation. An array index is the
  canonical decimal string of a number below \<open>2^32 - 1\<close>.
\<close>

definition isDigit :: "char \<Rightarrow> bool" where
  "isDigit c = (c \<in> set ''0123456789'')"

definition decimalValue :: "string \<Rightarrow> nat" where
  "decimalValue s = foldl (\<lambda>n c. 10 * n + (of_char c - 48)) 0 s"

definition isArrayIndex :: "string \<Rightarrow> bool" where
  "isArrayIndex s =
     (s \<noteq> [] \<and> list_all isDigit s \<and> (s = ''0'' \<or> hd s \<noteq> CHR ''0'') \<and> decimalValue s < 2 ^ 32 - 1)"

definition ownKeys :: "ComponentMap \<Rightarrow> string list" where
  "ownKeys obj =
     (let ks = map fst obj
      in sort_key decimalValue (filter isArrayIndex ks) @ filter (\<lambda>k. \<not> isArrayIndex k) ks)"

text \<open>The key under which \<open>for...in\<close> over an array yields the index \<open>n\<close>: its decimal string.\<close>

definition digitChar :: "nat \<Rightarrow> char" where
  "digitChar d = ''0123456789'' ! d"

fun decimalString :: "nat \<Rightarrow> string" where
  "decimalString n =
     (if n < 10 then [digitChar n] else decimalString (n div 10) @ [digitChar (n mod 10)])"

declare decimalString.simps [simp del]

text \<open>
  After the own keys, \<open>for...in\<close> goes on with the enumerable members of the prototype
  chain. \<open>Object.prototype\<close> has none, unless \<open>owner\<close> was written on it. A component that is
  the prototype has some.
\<close>

definition inheritsEnumerable :: "nat \<Rightarrow> World \<Rightarrow> bool" where
  "inheritsEnumerable t w =
     (proto (entities w t) \<noteq> ObjectPrototype \<or>
      (polluted w \<and> map_of (components (entities w t)) ''owner'' = None))"


section \<open>The entity\<close>

text \<open>
  \<open>Entity._ID++\<close> on a JavaScript number, for the values that the counter takes from its
  start at \<open>0\<close>: the numbers up to \<open>2^53\<close> are exact, and \<open>2^53 + 1\<close> is rounded to \<open>2^53\<close>.
\<close>

definition increment :: "nat \<Rightarrow> nat" where
  "increment n = (if n < 2 ^ 53 then n + 1 else n)"

text \<open>
  \<open>new Entity()\<close>: the field initialisers. \<open>id = Entity._ID++\<close>, an empty component map behind
  the proxy, a fresh channel, \<open>_isInitialized = false\<close>. The new object is at the next free
  address of the entity store, which is returned.
\<close>

definition newEntity :: "World \<Rightarrow> nat \<times> World" where
  "newEntity w =
     (let a = entityNext w
      in (a, w\<lparr>Entity_ID := increment (Entity_ID w),
               entityNext := entityNext w + 1,
               entities := (entities w)
                 (a := \<lparr>eid = Entity_ID w, components = [], proto = ObjectPrototype,
                        isInitialized = False\<rparr>),
               created := created w @ [Entity_ID w]\<rparr>))"

definition types :: "nat \<Rightarrow> World \<Rightarrow> ComponentType list" where
  "types this w = ownKeys (components (entities w this))"

definition viewOf :: "nat \<Rightarrow> nat \<Rightarrow> World \<Rightarrow> View" where
  "viewOf e c w = \<lparr>seenComponents = components (entities w e), seenOwner = owner (heap w c)\<rparr>"

text \<open>
  What the subscriber of a message can read. The value of a \<open>RemovedOther\<close> message had
  \<open>owner = null\<close> written on it before.
\<close>

fun messageView :: "nat \<Rightarrow> Message \<Rightarrow> World \<Rightarrow> View" where
  "messageView e (AddedComponent d) w = viewOf e (component d) w"
| "messageView e (RemovedComponent d) w = viewOf e (component d) w"
| "messageView e (RemovedOther v e') w =
     \<lparr>seenComponents = components (entities w e), seenOwner = None\<rparr>"

text \<open>
  Modelled from the spec: \<open>Observable.notifyAll\<close> (\<open>../Util/Observable\<close> is not part of the
  source). Publishing calls every subscriber with the message, synchronously; the model
  records the publication on the channel of the entity.
\<close>

definition notifyAll :: "nat \<Rightarrow> Message \<Rightarrow> World \<Rightarrow> World" where
  "notifyAll e m w = w\<lparr>trace := trace w @ [Notified e m (messageView e m w)]\<rparr>"

definition setComponents :: "nat \<Rightarrow> ComponentMap \<Rightarrow> World \<Rightarrow> World" where
  "setComponents e m w = w\<lparr>entities := (entities w)(e := (entities w e)\<lparr>components := m\<rparr>)\<rparr>"

definition setProto :: "nat \<Rightarrow> Proto \<Rightarrow> World \<Rightarrow> World" where
  "setProto e p w = w\<lparr>entities := (entities w)(e := (entities w e)\<lparr>proto := p\<rparr>)\<rparr>"

text \<open>
  The traps of \<open>_handleChanges\<close>. \<open>defineProperty\<close> publishes and only then writes.
  \<open>deleteProperty\<close> tests \<open>prop in obj\<close>, which is true of inherited members too, publishes
  what \<open>obj[prop]\<close> reads, and deletes the own property, if there is one.
\<close>

definition defineProperty :: "nat \<Rightarrow> string \<Rightarrow> nat \<Rightarrow> World \<Rightarrow> bool \<times> World" where
  "defineProperty this prop val w =
     (let w1 = notifyAll this (AddedComponent \<lparr>component = val, entity = this\<rparr>) w;
          w2 = setComponents this (AList.update prop val (components (entities w1 this))) w1
      in (True, w2))"

definition removedMessage :: "Value \<Rightarrow> nat \<Rightarrow> Message" where
  "removedMessage v e =
     (case v of
        Comp c \<Rightarrow> RemovedComponent \<lparr>component = c, entity = e\<rparr>
      | _ \<Rightarrow> RemovedOther v e)"

definition deleteProperty :: "nat \<Rightarrow> string \<Rightarrow> World \<Rightarrow> bool \<times> World" where
  "deleteProperty this prop w =
     (if inObject this prop w
      then (let w1 = notifyAll this (removedMessage (readKey this prop w) this) w;
                w2 = setComponents this (AList.delete prop (components (entities w1 this))) w1
            in (True, w2))
      else (False, w))"

text \<open>
  The assignment \<open>this.components[prop] = value\<close>. The proxy has no \<open>set\<close> trap, so the
  assignment looks for the property along the prototype chain. An own property, a
  writable inherited data property or no property at all send it to the \<open>defineProperty\<close>
  trap. For \<open>__proto__\<close>, when it is not an own property, the setter of \<open>Object.prototype\<close>
  runs instead: the value becomes the prototype, the trap is not called and no own
  property is made.
\<close>

definition assign :: "nat \<Rightarrow> string \<Rightarrow> nat \<Rightarrow> World \<Rightarrow> World" where
  "assign this prop val w =
     (if prop = ''__proto__'' \<and> map_of (components (entities w this)) prop = None
      then setProto this (ComponentPrototype val) w
      else snd (defineProperty this prop val w))"

text \<open>
  Modelled from the spec: \<open>Component.clone\<close>, a deep copy independent of the original. The
  copy is a new object, at the next free address, with the fields of the original.
\<close>

definition Component_clone :: "nat \<Rightarrow> World \<Rightarrow> nat \<times> World" where
  "Component_clone c w =
     (let a = heapNext w
      in (a, w\<lparr>heap := (heap w)(a := heap w c), heapNext := heapNext w + 1\<rparr>))"

definition setOwner :: "nat \<Rightarrow> nat option \<Rightarrow> World \<Rightarrow> World" where
  "setOwner c v w = w\<lparr>heap := (heap w)(c := (heap w c)\<lparr>owner := v\<rparr>)\<rparr>"

text \<open>\<open>addComponent\<close>, the branch of a component that is not an entity.\<close>

definition addComponent_normal :: "nat \<Rightarrow> nat \<Rightarrow> World \<Rightarrow> World" where
  "addComponent_normal this c w =
     (let w1 = setOwner c (Some this) w;
          w2 = assign this (ctype (heap w1 c)) c w1
      in if onAdd (heap w2 c)
         then w2\<lparr>trace := trace w2 @ [CalledOnAdd c this (viewOf this c w2)]\<rparr>
         else w2)"

text \<open>
  \<open>addComponent\<close>, the branch of an entity used as a template: \<open>for (const c in
  component.components)\<close>. The own keys are those the template has when the loop starts; a
  key that is gone when its turn comes is passed over, and the value is read when its
  turn comes. The inner call of \<open>addComponent\<close> is given a component, not an entity, and
  takes the other branch.
\<close>

fun addComponent_prefab :: "nat \<Rightarrow> nat \<Rightarrow> string list \<Rightarrow> World \<Rightarrow> World" where
  "addComponent_prefab this t [] w = w"
| "addComponent_prefab this t (c # cs) w =
     (case map_of (components (entities w t)) c of
        None \<Rightarrow> addComponent_prefab this t cs w
      | Some a \<Rightarrow>
          (let (a', w1) = Component_clone a w
           in addComponent_prefab this t cs (addComponent_normal this a' w1)))"

datatype ComponentOrEntity = IsComponent nat | IsEntity nat

text \<open>
  After the own keys of the template the loop goes on with the enumerable members that
  the template's map inherits, if there are any; the embedding does not follow it there.
\<close>

definition addComponent :: "nat \<Rightarrow> ComponentOrEntity \<Rightarrow> World \<Rightarrow> World" where
  "addComponent this arg w =
     (case arg of
        IsEntity t \<Rightarrow>
          (let w' = addComponent_prefab this t (ownKeys (components (entities w t))) w
           in if inheritsEnumerable t w' then w'\<lparr>unfollowed := True\<rparr> else w')
      | IsComponent c \<Rightarrow> addComponent_normal this c w)"

text \<open>
  \<open>clone\<close>: \<open>for (const c in this.types)\<close> runs over the indices of the array \<open>this.types\<close>,
  as strings; \<open>this.components[c]\<close> is \<open>undefined\<close> when no component has that string as
  its type (no inherited member has an index as its name), and the call of \<open>clone\<close> on it
  raises a \<open>TypeError\<close>. The state at the time of the error is kept: the new entity was
  constructed. After the indices the loop goes on with \<open>owner\<close>, if \<open>Object.prototype\<close> has
  it; the embedding does not follow it there.
\<close>

fun clone_loop :: "nat \<Rightarrow> nat \<Rightarrow> nat list \<Rightarrow> World \<Rightarrow> (error + unit) \<times> World" where
  "clone_loop this new [] w = (Inr (), w)"
| "clone_loop this new (i # is) w =
     (case map_of (components (entities w this)) (decimalString i) of
        None \<Rightarrow> (Inl TypeError, w)
      | Some a \<Rightarrow>
          (let (a', w1) = Component_clone a w
           in clone_loop this new is (addComponent new (IsComponent a') w1)))"

definition clone :: "nat \<Rightarrow> World \<Rightarrow> (error + nat) \<times> World" where
  "clone this w =
     (let (new, w1) = newEntity w
      in case clone_loop this new [0..<length (types this w1)] w1 of
           (Inl e, w2) \<Rightarrow> (Inl e, w2)
         | (Inr u, w2) \<Rightarrow> (Inr new, if polluted w2 then w2\<lparr>unfollowed := True\<rparr> else w2))"

text \<open>
  \<open>removeComponent\<close>. Both branches do the same with a key: the string itself, or the
  \<open>type\<close> of the component that was passed. The guard \<open>if (this.components[key])\<close> reads
  through the prototype. A component has its owner cleared and its hook called. Another
  object (a built-in, \<open>Object.prototype\<close>, a method, an entity) gets \<open>owner = null\<close> written
  on it and has no \<open>onRemove\<close>. Then the entry is deleted through the trap. On a string
  that is not empty the embedding does not follow the call.
\<close>

definition removeKey :: "nat \<Rightarrow> string \<Rightarrow> World \<Rightarrow> World" where
  "removeKey this k w =
     (let v = readKey this k w
      in if \<not> truthy v then w
         else case v of
           Comp c \<Rightarrow>
             (let w1 = setOwner c None w;
                  w2 = (if onRemove (heap w1 c)
                        then w1\<lparr>trace := trace w1 @ [CalledOnRemove c this (viewOf this c w1)]\<rparr>
                        else w1)
              in snd (deleteProperty this k w2))
         | Text s \<Rightarrow> w\<lparr>unfollowed := True\<rparr>
         | _ \<Rightarrow> snd (deleteProperty this k (w\<lparr>outside := outside w @ [v]\<rparr>)))"

datatype ComponentOrType = IsType string | IsInstance nat

definition removeComponent :: "nat \<Rightarrow> ComponentOrType \<Rightarrow> World \<Rightarrow> World" where
  "removeComponent this componentOrType w =
     (case componentOrType of
        IsType s \<Rightarrow> removeKey this s w
      | IsInstance c \<Rightarrow> removeKey this (ctype (heap w c)) w)"

text \<open>\<open>has\<close>: \<open>!!this.components[type]\<close>.\<close>

definition has :: "nat \<Rightarrow> ComponentType \<Rightarrow> World \<Rightarrow> bool" where
  "has this t w = truthy (readKey this t w)"

text \<open>
  \<open>onInitialize\<close> is the hook that a subclass overrides (the body in \<open>Entity\<close> is empty);
  the call is recorded.
\<close>

definition onInitialize :: "nat \<Rightarrow> Engine \<Rightarrow> World \<Rightarrow> World" where
  "onInitialize this engine w = w\<lparr>trace := trace w @ [CalledOnInitialize this engine]\<rparr>"

text \<open>
  Modelled from the spec: \<open>emit\<close> of the base class \<open>Class\<close> (\<open>../Class\<close> is not part of the
  source), the emission of a named event with a payload. The model records the emission,
  with the engine that the \<open>InitializeEvent\<close> carries.
\<close>

definition emit :: "nat \<Rightarrow> string \<Rightarrow> Engine \<Rightarrow> World \<Rightarrow> World" where
  "emit this name engine w = w\<lparr>trace := trace w @ [Emitted this name engine]\<rparr>"

text \<open>\<open>_initialize\<close>: nothing when the entity is initialised; else the hook, the event, the flag.\<close>

definition initialize :: "nat \<Rightarrow> Engine \<Rightarrow> World \<Rightarrow> World" where
  "initialize this engine w =
     (if \<not> isInitialized (entities w this)
      then (let w1 = onInitialize this engine w;
                w2 = emit this ''initialize'' engine w1
            in w2\<lparr>entities := (entities w2)(this := (entities w2 this)\<lparr>isInitialized := True\<rparr>)\<rparr>)
      else w)"

text \<open>The messages published on the channel of an entity, oldest first.\<close>

fun published :: "nat \<Rightarrow> Event list \<Rightarrow> Message list" where
  "published e [] = []"
| "published e (Notified e' m v # evs) = (if e' = e then m # published e evs else published e evs)"
| "published e (ev # evs) = published e evs"

text \<open>A program is a sequence of calls; \<open>run\<close> makes them one after the other.\<close>

datatype Action =
    New
  | Add nat ComponentOrEntity
  | Remove nat ComponentOrType
  | Init nat Engine
  | Clone nat

fun perform :: "Action \<Rightarrow> World \<Rightarrow> World" where
  "perform New w = snd (newEntity w)"
| "perform (Add e arg) w = addComponent e arg w"
| "perform (Remove e arg) w = removeComponent e arg w"
| "perform (Init e engine) w = initialize e engine w"
| "perform (Clone e) w = snd (clone e w)"

fun run :: "Action list \<Rightarrow> World \<Rightarrow> World" where
  "run [] w = w"
| "run (a # as) w = run as (perform a w)"




section \<open>What a subscriber sees\<close>

text \<open>
  The view of the subscriber that handles the message published by \<open>addComponent\<close> of the
  component \<open>c\<close> on the entity \<open>e\<close>: the first event that the call records.
\<close>

definition addedView :: "nat \<Rightarrow> nat \<Rightarrow> World \<Rightarrow> View option" where
  "addedView e c w =
     (case drop (length (trace w)) (trace (addComponent e (IsComponent c) w)) of
        Notified e' m v # evs \<Rightarrow>
          (if e' = e \<and> m = AddedComponent \<lparr>component = c, entity = e\<rparr> then Some v else None)
      | _ \<Rightarrow> None)"

text \<open>That subscriber reads \<open>entity.components[c.type]\<close> and finds \<open>c\<close> itself.\<close>

definition seenUnderOwnType :: "nat \<Rightarrow> nat \<Rightarrow> World \<Rightarrow> bool" where
  "seenUnderOwnType e c w =
     (case addedView e c w of
        Some v \<Rightarrow> map_of (seenComponents v) (ctype (heap w c)) = Some c
      | None \<Rightarrow> False)"


section \<open>Well-stored components\<close>

text \<open>
  What every state that the operations produce has: each component that the entity holds
  as an own property was allocated, and it is stored under its own type (the only write
  to the map is \<open>this.components[component.type] = component\<close>), which is not \<open>__proto__\<close>
  (that assignment makes no own property).
\<close>

definition wellStored :: "nat \<Rightarrow> World \<Rightarrow> bool" where
  "wellStored e w =
     list_all (\<lambda>(k, a). a < heapNext w \<and> ctype (heap w a) = k \<and> k \<noteq> ''__proto__'')
       (components (entities w e))"

text \<open>
  A call of \<open>addComponent\<close> is given a component that exists. Started in a state where all
  entities are well stored, a sequence of such calls ends in one (\<open>allWellStored_run\<close>
  below).
\<close>

fun actionOk :: "Action \<Rightarrow> World \<Rightarrow> bool" where
  "actionOk (Add e (IsComponent c)) w = (c < heapNext w)"
| "actionOk a w = True"

fun runOk :: "Action list \<Rightarrow> World \<Rightarrow> bool" where
  "runOk [] w = True"
| "runOk (a # as) w = (actionOk a w \<and> runOk as (perform a w))"

definition allWellStored :: "World \<Rightarrow> bool" where
  "allWellStored w = (\<forall>e. wellStored e w)"


section \<open>The loop over a template\<close>

text \<open>
  One turn of the loop in the template branch of \<open>addComponent\<close>: the component \<open>a\<close> is
  cloned and the clone, which sits at the next free address, is added to \<open>this\<close>.
\<close>

definition cloneInto :: "nat \<Rightarrow> nat \<Rightarrow> World \<Rightarrow> World" where
  "cloneInto this a w = addComponent_normal this (heapNext w) (snd (Component_clone a w))"



section \<open>Two small scenes\<close>

text \<open>
  A state to run the operations on: three components, \<open>0\<close> and \<open>1\<close> of type \<open>A\<close> and \<open>2\<close> of
  type \<open>B\<close>, the first with both hooks, and two entities, \<open>0\<close> and \<open>1\<close>, just constructed.
\<close>

definition blank :: Component where
  "blank = \<lparr>ctype = [], owner = None, onAdd = False, onRemove = False\<rparr>"

definition startWorld :: World where
  "startWorld =
     \<lparr>Entity_ID = 0,
      entityNext = 0,
      entities = (\<lambda>a. \<lparr>eid = a, components = [], proto = ObjectPrototype, isInitialized = False\<rparr>),
      heap = (\<lambda>a. blank)
        (0 := \<lparr>ctype = ''A'', owner = None, onAdd = True, onRemove = True\<rparr>,
         1 := \<lparr>ctype = ''A'', owner = None, onAdd = False, onRemove = False\<rparr>,
         2 := \<lparr>ctype = ''B'', owner = None, onAdd = False, onRemove = False\<rparr>),
      heapNext = 3,
      trace = [],
      created = [],
      outside = [],
      unfollowed = False\<rparr>"

definition scene :: World where
  "scene = run [New, New] startWorld"

text \<open>
  The same with other components: \<open>0\<close> and \<open>1\<close> of the type \<open>__proto__\<close>, \<open>2\<close> of the type
  \<open>toString\<close>, all without hooks.
\<close>

definition oddScene :: World where
  "oddScene =
     scene\<lparr>heap := (\<lambda>a. blank)
        (0 := \<lparr>ctype = ''__proto__'', owner = None, onAdd = False, onRemove = False\<rparr>,
         1 := \<lparr>ctype = ''__proto__'', owner = None, onAdd = False, onRemove = False\<rparr>,
         2 := \<lparr>ctype = ''toString'', owner = None, onAdd = False, onRemove = False\<rparr>)\<rparr>"


section \<open>Properties of the logging facility\<close>

lemma appenders_withAppenders: "appenders (withAppenders as this) = appenders this @ as"
  unfolding withAppenders_def
  by (induction as arbitrary: this) (simp_all add: addAppender_def)

lemma defaultLevel_withAppenders: "defaultLevel (withAppenders as this) = defaultLevel this"
  unfolding withAppenders_def
  by (induction as arbitrary: this) (simp_all add: addAppender_def)

lemma concat_map_never: "concat (map (\<lambda>a. []) xs) = []"
  by (induction xs) simp_all

text \<open>
  Claim C9. A logger that was given the appenders \<open>as\<close>, in this order, and whose threshold
  is \<open>d\<close>, passes a message of level \<open>l\<close> with arguments \<open>args\<close> to every one of them once, in
  the order of \<open>as\<close>, when \<open>l\<close> is at least \<open>d\<close>, and to none of them when \<open>l\<close> is below \<open>d\<close>.
  (An appender added twice is two entries of \<open>as\<close> and is called once for each.)
\<close>

theorem log_reaches_appenders_iff_level:
  "Logger_log ((withAppenders as newLogger)\<lparr>defaultLevel := d\<rparr>) (Some l) args =
     (if levelValue d \<le> levelValue l then map (\<lambda>a. (a, l, args)) as else [])"
  by (simp add: Logger_log_def appenders_withAppenders newLogger_def concat_map_never)

theorem log_reaches_appenders_iff_level_witness:
  "Logger_log ((withAppenders [1::nat, 2] newLogger)\<lparr>defaultLevel := Warn\<rparr>) (Some Error) [''x'']
     = [(1, Error, [''x'']), (2, Error, [''x''])]
   \<and> Logger_log ((withAppenders [1::nat, 2] newLogger)\<lparr>defaultLevel := Warn\<rparr>) (Some Info) [''x'']
     = []"
  using log_reaches_appenders_iff_level [where as = "[1::nat, 2]" and d = Warn and l = Error and args = "[''x'']"]
    log_reaches_appenders_iff_level [where as = "[1::nat, 2]" and d = Warn and l = Info and args = "[''x'']"]
  by simp


section \<open>What the operations change\<close>

lemmas step_defs =
  assign_def defineProperty_def deleteProperty_def notifyAll_def setComponents_def
  setProto_def setOwner_def viewOf_def removedMessage_def

lemma addComponent_normal_heap:
  "heap (addComponent_normal e c w) = (heap w)(c := (heap w c)\<lparr>owner := Some e\<rparr>)"
  by (simp add: addComponent_normal_def step_defs Let_def)

lemma addComponent_normal_entities:
  "ctype (heap w c) \<noteq> ''__proto__'' \<Longrightarrow>
   entities (addComponent_normal e c w) =
     (entities w)(e := (entities w e)
        \<lparr>components := AList.update (ctype (heap w c)) c (components (entities w e))\<rparr>)"
  by (simp add: addComponent_normal_def step_defs Let_def)

lemma addComponent_normal_trace:
  "ctype (heap w c) \<noteq> ''__proto__'' \<Longrightarrow>
   trace (addComponent_normal e c w) =
     trace w @
     Notified e (AddedComponent \<lparr>component = c, entity = e\<rparr>)
       \<lparr>seenComponents = components (entities w e), seenOwner = Some e\<rparr> #
     (if onAdd (heap w c)
      then [CalledOnAdd c e
              \<lparr>seenComponents = AList.update (ctype (heap w c)) c (components (entities w e)),
               seenOwner = Some e\<rparr>]
      else [])"
  by (simp add: addComponent_normal_def step_defs Let_def)

lemma addComponent_normal_counters:
  "Entity_ID (addComponent_normal e c w) = Entity_ID w"
  "entityNext (addComponent_normal e c w) = entityNext w"
  "heapNext (addComponent_normal e c w) = heapNext w"
  "created (addComponent_normal e c w) = created w"
  "outside (addComponent_normal e c w) = outside w"
  "unfollowed (addComponent_normal e c w) = unfollowed w"
  by (simp_all add: addComponent_normal_def step_defs Let_def)

text \<open>
  A component of the type \<open>__proto__\<close>, added to an entity that has no own property of that
  name: it becomes the prototype of the map, nothing is published and the own properties
  stay as they are.
\<close>

lemma addComponent_normal_proto:
  assumes "ctype (heap w c) = ''__proto__''"
    and "map_of (components (entities w e)) ''__proto__'' = None"
  shows "entities (addComponent_normal e c w) =
           (entities w)(e := (entities w e)\<lparr>proto := ComponentPrototype c\<rparr>)"
    and "trace (addComponent_normal e c w) =
           trace w @
           (if onAdd (heap w c)
            then [CalledOnAdd c e
                    \<lparr>seenComponents = components (entities w e), seenOwner = Some e\<rparr>]
            else [])"
  using assms by (simp_all add: addComponent_normal_def step_defs Let_def)

lemma readKey_own:
  "map_of (components (entities w e)) k = Some c \<Longrightarrow> readKey e k w = Comp c"
  by (simp add: readKey_def)

lemma removeKey_absent:
  "\<not> truthy (readKey e k w) \<Longrightarrow> removeKey e k w = w"
  by (simp add: removeKey_def)

lemma removeKey_heap:
  "map_of (components (entities w e)) k = Some c \<Longrightarrow>
   heap (removeKey e k w) = (heap w)(c := (heap w c)\<lparr>owner := None\<rparr>)"
  by (simp add: removeKey_def readKey_def inObject_def step_defs Let_def)

lemma removeKey_entities:
  "map_of (components (entities w e)) k = Some c \<Longrightarrow>
   entities (removeKey e k w) =
     (entities w)(e := (entities w e)\<lparr>components := AList.delete k (components (entities w e))\<rparr>)"
  by (simp add: removeKey_def readKey_def inObject_def step_defs Let_def)

lemma removeKey_trace:
  "map_of (components (entities w e)) k = Some c \<Longrightarrow>
   trace (removeKey e k w) =
     trace w @
     (if onRemove (heap w c)
      then [CalledOnRemove c e \<lparr>seenComponents = components (entities w e), seenOwner = None\<rparr>]
      else []) @
     [Notified e (RemovedComponent \<lparr>component = c, entity = e\<rparr>)
        \<lparr>seenComponents = components (entities w e), seenOwner = None\<rparr>]"
  by (simp add: removeKey_def readKey_def inObject_def step_defs Let_def)

lemma removeKey_counters:
  "Entity_ID (removeKey e k w) = Entity_ID w"
  "entityNext (removeKey e k w) = entityNext w"
  "heapNext (removeKey e k w) = heapNext w"
  "created (removeKey e k w) = created w"
  by (simp_all add: removeKey_def step_defs Let_def split: Value.splits)

lemma removeKey_own_marks:
  "map_of (components (entities w e)) k = Some c \<Longrightarrow> outside (removeKey e k w) = outside w"
  "map_of (components (entities w e)) k = Some c \<Longrightarrow> unfollowed (removeKey e k w) = unfollowed w"
  by (simp_all add: removeKey_def readKey_def inObject_def step_defs Let_def)

lemma addComponent_IsComponent:
  "addComponent e (IsComponent c) w = addComponent_normal e c w"
  by (simp add: addComponent_def)

lemma removeComponent_IsType: "removeComponent e (IsType k) w = removeKey e k w"
  by (simp add: removeComponent_def)


lemma published_append: "published e (xs @ ys) = published e xs @ published e ys"
  by (induction e xs rule: published.induct) simp_all

lemmas addComponent_normal_simps =
  addComponent_normal_entities addComponent_normal_trace

lemma scene_fields:
  "heap scene = heap startWorld"
  "trace scene = []"
  "components (entities scene e) = []"
  "proto (entities scene e) = ObjectPrototype"
  "isInitialized (entities scene e) = False"
  "Entity_ID scene = 2"
  "entityNext scene = 2"
  "heapNext scene = 3"
  "created scene = [0, 1]"
  "outside scene = []"
  "unfollowed scene = False"
  by (simp_all add: scene_def startWorld_def newEntity_def increment_def)

lemma startWorld_heap:
  "heap startWorld 0 = \<lparr>ctype = ''A'', owner = None, onAdd = True, onRemove = True\<rparr>"
  "heap startWorld (Suc 0) = \<lparr>ctype = ''A'', owner = None, onAdd = False, onRemove = False\<rparr>"
  "heap startWorld 2 = \<lparr>ctype = ''B'', owner = None, onAdd = False, onRemove = False\<rparr>"
  by (simp_all add: startWorld_def)

lemma oddScene_fields:
  "heap oddScene 0 = \<lparr>ctype = ''__proto__'', owner = None, onAdd = False, onRemove = False\<rparr>"
  "heap oddScene (Suc 0) = \<lparr>ctype = ''__proto__'', owner = None, onAdd = False, onRemove = False\<rparr>"
  "heap oddScene 2 = \<lparr>ctype = ''toString'', owner = None, onAdd = False, onRemove = False\<rparr>"
  "trace oddScene = []"
  "components (entities oddScene e) = []"
  "proto (entities oddScene e) = ObjectPrototype"
  "outside oddScene = []"
  by (simp_all add: oddScene_def scene_fields)

lemma addedView_eq:
  "ctype (heap w c) \<noteq> ''__proto__'' \<Longrightarrow>
   addedView e c w = Some \<lparr>seenComponents = components (entities w e), seenOwner = Some e\<rparr>"
  by (simp add: addedView_def addComponent_def addComponent_normal_trace)


lemma inherited_proto: "inherited pr ''__proto__'' w \<noteq> None"
  by (cases pr) (simp_all add: inherited_def)

lemma inherited_None_frame:
  assumes "outside w' = outside w"
    and "\<And>p. onAdd (heap w' p) = onAdd (heap w p)"
    and "\<And>p. onRemove (heap w' p) = onRemove (heap w p)"
  shows "(inherited pr k w' = None) = (inherited pr k w = None)"
  using assms by (cases pr) (simp_all add: inherited_def polluted_def)


section \<open>Adding and removing components\<close>

text \<open>
  Claim C2, as the code has it. Two different components \<open>c1\<close> and \<open>c2\<close> of one type, which
  is not \<open>__proto__\<close>, are added to the entity \<open>e\<close>, \<open>c1\<close> first. Afterwards the map holds \<open>c2\<close>,
  and not \<open>c1\<close>, under that type, and the channel of \<open>e\<close> has received two messages more:
  Added for \<open>c1\<close>, then Added for \<open>c2\<close>. No Removed message is among them. Both calls are
  followed to their end.
\<close>

theorem add_same_type_twice:
  assumes "c1 \<noteq> c2" and "ctype (heap w c1) = ctype (heap w c2)"
    and "ctype (heap w c1) \<noteq> ''__proto__''"
  shows "map_of (components (entities
            (addComponent e (IsComponent c2) (addComponent e (IsComponent c1) w)) e))
           (ctype (heap w c1)) = Some c2
       \<and> map_of (components (entities
            (addComponent e (IsComponent c2) (addComponent e (IsComponent c1) w)) e))
           (ctype (heap w c1)) \<noteq> Some c1
       \<and> published e (trace (addComponent e (IsComponent c2) (addComponent e (IsComponent c1) w))) =
           published e (trace w) @
           [AddedComponent \<lparr>component = c1, entity = e\<rparr>,
            AddedComponent \<lparr>component = c2, entity = e\<rparr>]
       \<and> unfollowed (addComponent e (IsComponent c2) (addComponent e (IsComponent c1) w)) =
           unfollowed w"
  using assms
  by (simp add: addComponent_def addComponent_normal_simps addComponent_normal_heap update_conv'
      published_append addComponent_normal_counters)

theorem add_same_type_twice_witness:
  "(0::nat) \<noteq> 1 \<and> ctype (heap scene 0) = ctype (heap scene 1)
   \<and> ctype (heap scene 0) \<noteq> ''__proto__''
   \<and> map_of (components (entities
        (addComponent 0 (IsComponent 1) (addComponent 0 (IsComponent 0) scene)) 0)) ''A'' = Some 1
   \<and> published 0 (trace (addComponent 0 (IsComponent 1) (addComponent 0 (IsComponent 0) scene))) =
        [AddedComponent \<lparr>component = 0, entity = 0\<rparr>,
         AddedComponent \<lparr>component = 1, entity = 0\<rparr>]"
proof -
  have h: "(0::nat) \<noteq> 1" "ctype (heap scene 0) = ctype (heap scene 1)"
    "ctype (heap scene 0) \<noteq> ''__proto__''"
    by (simp_all add: scene_fields startWorld_heap)
  from add_same_type_twice [OF h, of 0] h show ?thesis
    by (simp add: scene_fields startWorld_heap)
qed

text \<open>
  Claim C2, as it is stated, fails for two components of the type \<open>__proto__\<close>: the
  assignments run the setter of \<open>Object.prototype\<close>, not the trap. Nothing is published
  and the map holds nothing under that type; the second component is the prototype of
  the map.
\<close>

theorem add_proto_twice_counterexample:
  "(0::nat) \<noteq> 1 \<and> ctype (heap oddScene 0) = ctype (heap oddScene 1)
   \<and> published 0 (trace (addComponent 0 (IsComponent 1) (addComponent 0 (IsComponent 0) oddScene)))
       = []
   \<and> components (entities
        (addComponent 0 (IsComponent 1) (addComponent 0 (IsComponent 0) oddScene)) 0) = []
   \<and> proto (entities
        (addComponent 0 (IsComponent 1) (addComponent 0 (IsComponent 0) oddScene)) 0)
       = ComponentPrototype 1"
proof -
  let ?w1 = "addComponent 0 (IsComponent 0) oddScene"
  have a: "ctype (heap oddScene 0) = ''__proto__''"
    "map_of (components (entities oddScene 0)) ''__proto__'' = None"
    by (simp_all add: oddScene_fields)
  have w1: "trace ?w1 = []" "components (entities ?w1 0) = []"
    "heap ?w1 (Suc 0) = \<lparr>ctype = ''__proto__'', owner = None, onAdd = False, onRemove = False\<rparr>"
    by (simp_all add: addComponent_def addComponent_normal_proto [OF a] addComponent_normal_heap
        oddScene_fields)
  have b: "ctype (heap ?w1 (Suc 0)) = ''__proto__''"
    "map_of (components (entities ?w1 0)) ''__proto__'' = None"
    by (simp_all add: w1)
  show ?thesis
    using addComponent_normal_proto [OF b]
    by (simp add: addComponent_def [of 0 "IsComponent (Suc 0)"] w1 oddScene_fields)
qed

text \<open>
  Claim C3, as the code has it. A component \<open>c\<close> is added to the entity \<open>e\<close> and then removed
  by its type, and the map of \<open>e\<close> inherits no member under that type (as it does under
  \<open>toString\<close> or \<open>__proto__\<close>). Afterwards \<open>has\<close> is false for that type, the channel of \<open>e\<close> has
  received one Added message and then one Removed message, both for \<open>c\<close>, and the owner
  of \<open>c\<close> is none. Both calls are followed to their end.
\<close>

theorem add_then_remove:
  assumes "inherited (proto (entities w e)) (ctype (heap w c)) w = None"
  shows "\<not> has e (ctype (heap w c))
       (removeComponent e (IsType (ctype (heap w c))) (addComponent e (IsComponent c) w))
   \<and> published e (trace
       (removeComponent e (IsType (ctype (heap w c))) (addComponent e (IsComponent c) w))) =
       published e (trace w) @
       [AddedComponent \<lparr>component = c, entity = e\<rparr>,
        RemovedComponent \<lparr>component = c, entity = e\<rparr>]
   \<and> owner (heap
       (removeComponent e (IsType (ctype (heap w c))) (addComponent e (IsComponent c) w)) c) = None
   \<and> unfollowed
       (removeComponent e (IsType (ctype (heap w c))) (addComponent e (IsComponent c) w)) =
       unfollowed w"
proof -
  let ?t = "ctype (heap w c)"
  let ?w1 = "addComponent_normal e c w"
  let ?w2 = "removeKey e ?t ?w1"
  have t: "?t \<noteq> ''__proto__''"
    using assms inherited_proto [of "proto (entities w e)" w] by auto
  have stored: "map_of (components (entities ?w1 e)) ?t = Some c"
    by (simp add: addComponent_normal_simps [OF t] update_conv')
  have own: "map_of (components (entities ?w2 e)) ?t = None"
    by (simp add: removeKey_entities [OF stored] delete_conv')
  have pr: "proto (entities ?w2 e) = proto (entities w e)"
    by (simp add: removeKey_entities [OF stored] addComponent_normal_simps [OF t])
  have out: "outside ?w2 = outside w"
    by (simp add: removeKey_own_marks [OF stored] addComponent_normal_counters)
  have hooks: "\<And>p. onAdd (heap ?w2 p) = onAdd (heap w p)"
    "\<And>p. onRemove (heap ?w2 p) = onRemove (heap w p)"
    by (simp_all add: removeKey_heap [OF stored] addComponent_normal_heap)
  have "inherited (proto (entities ?w2 e)) ?t ?w2 = None"
    unfolding pr using inherited_None_frame [OF out hooks] assms by simp
  with own have first: "\<not> has e ?t ?w2"
    by (simp add: has_def readKey_def)
  have second: "published e (trace ?w2) =
       published e (trace w) @
       [AddedComponent \<lparr>component = c, entity = e\<rparr>,
        RemovedComponent \<lparr>component = c, entity = e\<rparr>]"
    by (simp add: removeKey_trace [OF stored] published_append addComponent_normal_simps [OF t])
  have third: "owner (heap ?w2 c) = None"
    by (simp add: removeKey_heap [OF stored])
  have fourth: "unfollowed ?w2 = unfollowed w"
    by (simp add: removeKey_own_marks [OF stored] addComponent_normal_counters)
  from first second third fourth show ?thesis
    unfolding addComponent_IsComponent removeComponent_IsType by blast
qed

theorem add_then_remove_witness:
  "inherited (proto (entities scene 0)) (ctype (heap scene 0)) scene = None
   \<and> \<not> has 0 ''A'' (removeComponent 0 (IsType ''A'') (addComponent 0 (IsComponent 0) scene))
   \<and> published 0 (trace
       (removeComponent 0 (IsType ''A'') (addComponent 0 (IsComponent 0) scene))) =
       [AddedComponent \<lparr>component = 0, entity = 0\<rparr>,
        RemovedComponent \<lparr>component = 0, entity = 0\<rparr>]
   \<and> owner (heap (removeComponent 0 (IsType ''A'') (addComponent 0 (IsComponent 0) scene)) 0) = None"
proof -
  have h: "inherited (proto (entities scene 0)) (ctype (heap scene 0)) scene = None"
    by (simp add: inherited_def objectPrototypeMembers_def scene_fields startWorld_heap)
  from add_then_remove [OF h] h show ?thesis
    by (simp add: scene_fields startWorld_heap)
qed

text \<open>
  Claim C3, as it is stated, fails for a component of the type \<open>toString\<close>: after it was
  added and removed, \<open>this.components['toString']\<close> reads the member of \<open>Object.prototype\<close>
  again, and \<open>has\<close> is true.
\<close>

theorem has_after_remove_counterexample:
  "ctype (heap oddScene 2) = ''toString''
   \<and> has 0 ''toString''
       (removeComponent 0 (IsType ''toString'') (addComponent 0 (IsComponent 2) oddScene))"
proof -
  let ?w1 = "addComponent_normal 0 2 oddScene"
  have t: "ctype (heap oddScene 2) \<noteq> ''__proto__''"
    by (simp add: oddScene_fields)
  have stored: "map_of (components (entities ?w1 0)) ''toString'' = Some 2"
    by (simp add: addComponent_normal_simps [OF t] oddScene_fields)
  have own: "map_of (components (entities (removeKey 0 ''toString'' ?w1) 0)) ''toString'' = None"
    by (simp add: removeKey_entities [OF stored] delete_conv')
  have pr: "proto (entities (removeKey 0 ''toString'' ?w1) 0) = ObjectPrototype"
    by (simp add: removeKey_entities [OF stored] addComponent_normal_simps [OF t]
        oddScene_fields)
  have "has 0 ''toString'' (removeKey 0 ''toString'' ?w1)"
    by (simp add: has_def readKey_def own pr inherited_def objectPrototypeMembers_def)
  then show ?thesis
    by (simp add: addComponent_IsComponent removeComponent_IsType oddScene_fields)
qed

text \<open>
  Claim C4, as the code has it. \<open>addComponent\<close> of a component \<open>c\<close> whose type is not
  \<open>__proto__\<close>, on the entity \<open>e\<close>, first sets the owner of \<open>c\<close> to \<open>e\<close>, then publishes the Added
  message, then stores \<open>c\<close> under its type, then calls \<open>onAdd\<close> if \<open>c\<close> has it. So the
  subscriber that handles the message reads the owner already set and the component map
  as it was before the call: it finds \<open>c\<close> under the type of \<open>c\<close> exactly when \<open>c\<close> was stored
  there before. The hook reads the map with \<open>c\<close> in it. The call is followed to its end.
\<close>

theorem addComponent_order:
  assumes "ctype (heap w c) \<noteq> ''__proto__''"
  shows "addedView e c w = Some \<lparr>seenComponents = components (entities w e), seenOwner = Some e\<rparr>
   \<and> (seenUnderOwnType e c w \<longleftrightarrow> map_of (components (entities w e)) (ctype (heap w c)) = Some c)
   \<and> trace (addComponent e (IsComponent c) w) =
       trace w @
       Notified e (AddedComponent \<lparr>component = c, entity = e\<rparr>)
         \<lparr>seenComponents = components (entities w e), seenOwner = Some e\<rparr> #
       (if onAdd (heap w c)
        then [CalledOnAdd c e
                \<lparr>seenComponents = components (entities (addComponent e (IsComponent c) w) e),
                 seenOwner = Some e\<rparr>]
        else [])
   \<and> map_of (components (entities (addComponent e (IsComponent c) w) e)) (ctype (heap w c)) = Some c
   \<and> owner (heap (addComponent e (IsComponent c) w) c) = Some e
   \<and> unfollowed (addComponent e (IsComponent c) w) = unfollowed w"
  by (simp add: seenUnderOwnType_def addedView_eq [OF assms])
    (simp add: addComponent_def addComponent_normal_simps [OF assms] addComponent_normal_heap
      addComponent_normal_counters update_conv')

theorem addComponent_order_witness:
  "ctype (heap scene 0) \<noteq> ''__proto__''
   \<and> addedView 0 0 scene = Some \<lparr>seenComponents = [], seenOwner = Some 0\<rparr>
   \<and> \<not> seenUnderOwnType 0 0 scene
   \<and> trace (addComponent 0 (IsComponent 0) scene) =
       [Notified 0 (AddedComponent \<lparr>component = 0, entity = 0\<rparr>)
          \<lparr>seenComponents = [], seenOwner = Some 0\<rparr>,
        CalledOnAdd 0 0 \<lparr>seenComponents = [(''A'', 0)], seenOwner = Some 0\<rparr>]"
proof -
  have h: "ctype (heap scene 0) \<noteq> ''__proto__''"
    by (simp add: scene_fields startWorld_heap)
  from addComponent_order [OF h, of 0] h show ?thesis
    by (simp add: scene_fields startWorld_heap addComponent_def addComponent_normal_entities)
qed

text \<open>
  Claim C4, as it is stated, fails when the component is added a second time: the
  subscriber that handles the second Added message finds the component in the map, under
  its type, where the first call has stored it.
\<close>

theorem added_sees_component_counterexample:
  "seenUnderOwnType 0 0 (addComponent 0 (IsComponent 0) scene)"
proof -
  let ?w1 = "addComponent_normal 0 0 scene"
  have h: "ctype (heap scene 0) \<noteq> ''__proto__''"
    by (simp add: scene_fields startWorld_heap)
  have h': "ctype (heap ?w1 0) \<noteq> ''__proto__''"
    by (simp add: addComponent_normal_heap scene_fields startWorld_heap)
  have "seenUnderOwnType 0 0 ?w1"
    by (simp add: seenUnderOwnType_def addedView_eq [OF h'] addComponent_normal_simps [OF h]
        addComponent_normal_heap scene_fields startWorld_heap)
  then show ?thesis
    by (simp add: addComponent_IsComponent)
qed

text \<open>
  It fails for a component of the type \<open>__proto__\<close> too, on an entity without an own
  property of that name: the owner is set and the hook is called, but no message is
  published and nothing is stored.
\<close>

lemma proto_component_not_published:
  assumes "ctype (heap w c) = ''__proto__''"
    and "map_of (components (entities w e)) ''__proto__'' = None"
  shows "published e (trace (addComponent e (IsComponent c) w)) = published e (trace w)
       \<and> components (entities (addComponent e (IsComponent c) w) e) = components (entities w e)
       \<and> owner (heap (addComponent e (IsComponent c) w) c) = Some e"
  by (simp add: addComponent_def addComponent_normal_proto [OF assms] addComponent_normal_heap
      published_append)

text \<open>
  Claim C5, as the code has it. When \<open>has\<close> is false for the type that is passed, or for
  the type of the component that is passed (\<open>this.components[type]\<close> reads nothing, or a
  value that is not truthy), \<open>removeComponent\<close> returns the state it was given: no message,
  no hook, the same map, the same owners.
\<close>

theorem remove_absent_is_noop:
  "(\<not> has this k w \<longrightarrow> removeComponent this (IsType k) w = w)
   \<and> (\<not> has this (ctype (heap w c)) w \<longrightarrow> removeComponent this (IsInstance c) w = w)"
  by (simp add: has_def removeComponent_def removeKey_absent)

theorem remove_absent_is_noop_witness:
  "\<not> has 0 ''B'' (addComponent 0 (IsComponent 0) scene)
   \<and> removeComponent 0 (IsType ''B'') (addComponent 0 (IsComponent 0) scene) =
       addComponent 0 (IsComponent 0) scene
   \<and> removeComponent 0 (IsInstance 2) (addComponent 0 (IsComponent 0) scene) =
       addComponent 0 (IsComponent 0) scene"
proof -
  let ?w = "addComponent 0 (IsComponent 0) scene"
  have h: "ctype (heap scene 0) \<noteq> ''__proto__''"
    by (simp add: scene_fields startWorld_heap)
  have t: "ctype (heap ?w 2) = ''B''"
    by (simp add: addComponent_def addComponent_normal_heap scene_fields startWorld_heap)
  have absent: "\<not> has 0 ''B'' ?w"
    by (simp add: has_def readKey_def inherited_def objectPrototypeMembers_def addComponent_def
        addComponent_normal_simps [OF h] scene_fields startWorld_heap)
  from remove_absent_is_noop [of 0 "''B''" ?w 2] absent t show ?thesis
    by simp
qed

text \<open>
  Claim C5, as it is stated, fails for the type \<open>toString\<close> on an entity that holds no
  component: nothing is stored under that type, but the guard reads the member of
  \<open>Object.prototype\<close>, \<open>owner = null\<close> is written on it, and a Removed message that carries
  it is published.
\<close>

theorem remove_inherited_counterexample:
  "map_of (components (entities scene 0)) ''toString'' = None
   \<and> trace (removeComponent 0 (IsType ''toString'') scene) =
       [Notified 0 (RemovedOther (Builtin ''toString'') 0)
          \<lparr>seenComponents = [], seenOwner = None\<rparr>]
   \<and> outside (removeComponent 0 (IsType ''toString'') scene) = [Builtin ''toString'']"
  by (simp add: removeComponent_def removeKey_def readKey_def inObject_def inherited_def
      objectPrototypeMembers_def step_defs scene_fields Let_def)




section \<open>Initialisation\<close>

text \<open>
  Claim C6. An entity comes out of its constructor uninitialised. After the first call of
  \<open>_initialize\<close> it is initialised; a second call, with any engine, returns the state
  unchanged. On an entity that was not initialised, the two calls together call
  \<open>onInitialize\<close> once and emit \<open>initialize\<close> once, with the engine of the first call.
\<close>

theorem initialize_twice:
  "\<not> isInitialized (entities (snd (newEntity w)) (fst (newEntity w)))
   \<and> isInitialized (entities (initialize e g1 w) e)
   \<and> initialize e g2 (initialize e g1 w) = initialize e g1 w
   \<and> (\<not> isInitialized (entities w e) \<longrightarrow>
        trace (initialize e g2 (initialize e g1 w)) =
          trace w @ [CalledOnInitialize e g1, Emitted e ''initialize'' g1])"
  by (simp add: initialize_def onInitialize_def emit_def newEntity_def Let_def)

theorem initialize_twice_witness:
  "\<not> isInitialized (entities scene 0)
   \<and> isInitialized (entities (initialize 0 5 scene) 0)
   \<and> initialize 0 6 (initialize 0 5 scene) = initialize 0 5 scene
   \<and> trace (initialize 0 6 (initialize 0 5 scene)) =
        [CalledOnInitialize 0 5, Emitted 0 ''initialize'' 5]"
proof -
  have fresh: "\<not> isInitialized (entities scene 0)"
    by (simp add: scene_fields)
  have empty: "trace scene = []"
    by (simp add: scene_fields)
  from initialize_twice [of scene 0 5 6] fresh empty show ?thesis
    by (metis append_Nil)
qed


section \<open>The ids of entities\<close>






















section \<open>Cloning an entity\<close>

lemma length_ownKeys: "length (ownKeys m) = length m"
proof -
  have "length (filter isArrayIndex (map fst m)) + length (filter (\<lambda>k. \<not> isArrayIndex k) (map fst m))
        = length (map fst m)"
    by (rule sum_length_filter_compl)
  then show ?thesis
    by (simp add: ownKeys_def Let_def)
qed

lemma decimalString_0: "decimalString 0 = ''0''"
  by (simp add: decimalString.simps digitChar_def)

lemma newEntity_others:
  "this \<noteq> entityNext w \<Longrightarrow> entities (snd (newEntity w)) this = entities w this"
  by (simp add: newEntity_def Let_def)

lemma has_A_is_own:
  assumes "has this ''A'' w"
  shows "map_of (components (entities w this)) ''A'' \<noteq> None"
proof -
  have "inherited (proto (entities w this)) ''A'' w = None"
    by (cases "proto (entities w this)") (simp_all add: inherited_def objectPrototypeMembers_def)
  with assms show ?thesis
    by (auto simp: has_def readKey_def split: option.splits)
qed

lemma not_has_no_own:
  "\<not> has this k w \<Longrightarrow> map_of (components (entities w this)) k = None"
  by (auto simp: has_def readKey_def split: option.splits)

text \<open>
  Claim C1 asks \<open>clone\<close> for a new entity that has a copy of each component. The loop of
  \<open>clone\<close> is \<open>for (const c in this.types)\<close>: over an array, \<open>c\<close> is an index, \<open>0\<close>, \<open>1\<close>, ...,
  not a type. An entity that holds components of the types \<open>A\<close> and \<open>B\<close>, and none of the
  type \<open>0\<close>, has nothing under \<open>0\<close>; \<open>this.components[c].clone()\<close> raises a \<open>TypeError\<close>
  there, and \<open>clone\<close> returns no entity. (The template branch of \<open>addComponent\<close> runs over
  the keys of \<open>components\<close> and does copy each component.)
\<close>

theorem clone_raises:
  assumes "this < entityNext w" and "has this ''A'' w" and "has this ''B'' w"
    and "\<not> has this ''0'' w"
  shows "fst (clone this w) = Inl TypeError"
proof -
  obtain n w1 where ne: "newEntity w = (n, w1)"
    by (cases "newEntity w")
  have same: "entities w1 this = entities w this"
    using newEntity_others [of this w] assms(1) ne by simp
  from has_A_is_own [OF assms(2)] have "components (entities w this) \<noteq> []"
    by auto
  then have "length (types this w1) \<noteq> 0"
    by (simp add: types_def length_ownKeys same)
  then obtain m where len: "length (types this w1) = Suc m"
    by (cases "length (types this w1)") simp_all
  have idx: "[0..<Suc m] = 0 # [1..<Suc m]"
    by (simp add: upt_rec)
  have none: "map_of (components (entities w1 this)) (decimalString 0) = None"
    using not_has_no_own [OF assms(4)] by (simp add: same decimalString_0)
  show ?thesis
    by (simp add: clone_def ne len idx none del: upt_Suc)
qed

theorem clone_raises_witness:
  "has 0 ''A'' (run [Add 0 (IsComponent 0), Add 0 (IsComponent 2)] scene)
   \<and> has 0 ''B'' (run [Add 0 (IsComponent 0), Add 0 (IsComponent 2)] scene)
   \<and> fst (clone 0 (run [Add 0 (IsComponent 0), Add 0 (IsComponent 2)] scene)) = Inl TypeError"
proof -
  let ?w = "run [Add 0 (IsComponent 0), Add 0 (IsComponent 2)] scene"
  let ?w' = "addComponent_normal 0 2 (addComponent_normal 0 0 scene)"
  have eq: "?w = ?w'"
    by (simp add: addComponent_IsComponent)
  have p: "ctype (heap scene 0) \<noteq> ''__proto__''"
    "ctype (heap (addComponent_normal 0 0 scene) 2) \<noteq> ''__proto__''"
    by (simp_all add: addComponent_normal_heap scene_fields startWorld_heap)
  have c: "components (entities ?w' 0) = [(''A'', 0), (''B'', 2)]"
    "proto (entities ?w' 0) = ObjectPrototype"
    by (simp_all add: addComponent_normal_simps p addComponent_normal_heap scene_fields
        startWorld_heap)
  have i: "entityNext ?w' = 2" "outside ?w' = []"
    by (simp_all add: addComponent_normal_counters scene_fields)
  have h: "0 < entityNext ?w" "has 0 ''A'' ?w" "has 0 ''B'' ?w" "\<not> has 0 ''0'' ?w"
    unfolding eq
    by (simp_all add: has_def readKey_def c i inherited_def objectPrototypeMembers_def
        polluted_def)
  from clone_raises [OF h] h show ?thesis
    by blast
qed


section \<open>An entity as a template\<close>

lemma Component_clone_fields:
  "fst (Component_clone c w) = heapNext w"
  "heap (snd (Component_clone c w)) = (heap w)(heapNext w := heap w c)"
  "heapNext (snd (Component_clone c w)) = heapNext w + 1"
  "entities (snd (Component_clone c w)) = entities w"
  "trace (snd (Component_clone c w)) = trace w"
  by (simp_all add: Component_clone_def Let_def)

lemma addComponent_prefab_Cons:
  "addComponent_prefab this t (k # ks) w =
     (case map_of (components (entities w t)) k of
        None \<Rightarrow> addComponent_prefab this t ks w
      | Some a \<Rightarrow> addComponent_prefab this t ks (cloneInto this a w))"
  by (simp add: cloneInto_def Component_clone_def Let_def split: option.splits)

















section \<open>Components stay well stored\<close>

lemma list_all_update:
  "list_all P al \<Longrightarrow> P (k, v) \<Longrightarrow> list_all P (AList.update k v al)"
  by (induction al) auto

lemma list_all_delete:
  "list_all P al \<Longrightarrow> list_all P (AList.delete k al)"
  by (induction al) auto

lemma addComponent_normal_ctype:
  "ctype (heap (addComponent_normal e c w) a) = ctype (heap w a)"
  by (simp add: addComponent_normal_heap)

lemma addComponent_normal_components:
  "components (entities (addComponent_normal this c w) e) =
     (if e = this \<and> \<not> (ctype (heap w c) = ''__proto__'' \<and>
                          map_of (components (entities w this)) ''__proto__'' = None)
      then AList.update (ctype (heap w c)) c (components (entities w this))
      else components (entities w e))"
  by (auto simp: addComponent_normal_def step_defs Let_def)

lemma wellStored_no_proto:
  "wellStored e w \<Longrightarrow> map_of (components (entities w e)) ''__proto__'' = None"
proof (rule ccontr)
  assume ws: "wellStored e w" and "map_of (components (entities w e)) ''__proto__'' \<noteq> None"
  then obtain a where "map_of (components (entities w e)) ''__proto__'' = Some a"
    by auto
  then have "(''__proto__'', a) \<in> set (components (entities w e))"
    by (rule map_of_SomeD)
  with ws show False
    by (auto simp: wellStored_def list_all_iff)
qed

lemma allWellStored_addComponent_normal:
  assumes "allWellStored w" and "c < heapNext w"
  shows "allWellStored (addComponent_normal this c w)"
  unfolding allWellStored_def
proof
  fix e
  from assms(1) have ws: "wellStored e w" and wst: "wellStored this w"
    by (simp_all add: allWellStored_def)
  let ?P = "\<lambda>(k, a). a < heapNext w \<and> ctype (heap w a) = k \<and> k \<noteq> ''__proto__''"
  show "wellStored e (addComponent_normal this c w)"
  proof (cases "e = this \<and> \<not> (ctype (heap w c) = ''__proto__'' \<and>
                          map_of (components (entities w this)) ''__proto__'' = None)")
    case False
    then have "components (entities (addComponent_normal this c w) e) = components (entities w e)"
      unfolding addComponent_normal_components by (simp only: if_False)
    with ws show ?thesis
      by (simp add: wellStored_def addComponent_normal_ctype addComponent_normal_counters)
  next
    case True
    with wellStored_no_proto [OF wst] have t: "ctype (heap w c) \<noteq> ''__proto__''"
      by simp
    have "list_all ?P (AList.update (ctype (heap w c)) c (components (entities w this)))"
      using wst assms(2) t by (intro list_all_update) (simp_all add: wellStored_def)
    moreover have "components (entities (addComponent_normal this c w) e) =
        AList.update (ctype (heap w c)) c (components (entities w this))"
      using True by (simp add: addComponent_normal_components)
    ultimately show ?thesis
      by (simp add: wellStored_def addComponent_normal_ctype addComponent_normal_counters)
  qed
qed

lemma allWellStored_Component_clone:
  assumes "allWellStored w"
  shows "allWellStored (snd (Component_clone a w))"
  using assms
  by (force simp: allWellStored_def wellStored_def Component_clone_fields list_all_iff)

lemma allWellStored_cloneInto:
  assumes "allWellStored w"
  shows "allWellStored (cloneInto this a w)"
  unfolding cloneInto_def
  using allWellStored_addComponent_normal [OF allWellStored_Component_clone [OF assms],
      of "heapNext w" a this]
  by (simp add: Component_clone_fields)

lemma allWellStored_addComponent_prefab:
  "allWellStored w \<Longrightarrow> allWellStored (addComponent_prefab this t ks w)"
proof (induction ks arbitrary: w)
  case Nil
  then show ?case by simp
next
  case (Cons k ks)
  then show ?case
    by (simp add: addComponent_prefab_Cons allWellStored_cloneInto
        del: addComponent_prefab.simps split: option.splits)
qed

lemma allWellStored_unfollowed:
  "allWellStored w \<Longrightarrow> allWellStored (w\<lparr>unfollowed := b\<rparr>)"
  by (simp add: allWellStored_def wellStored_def)

lemma clone_loop_Cons:
  "clone_loop this new (i # is) w =
     (case map_of (components (entities w this)) (decimalString i) of
        None \<Rightarrow> (Inl TypeError, w)
      | Some a \<Rightarrow> clone_loop this new is (cloneInto new a w))"
  by (simp add: cloneInto_def Component_clone_def addComponent_def Let_def split: option.splits)

lemma allWellStored_clone_loop:
  "allWellStored w \<Longrightarrow> allWellStored (snd (clone_loop this new is w))"
proof (induction "is" arbitrary: w)
  case Nil
  then show ?case by simp
next
  case (Cons i "is")
  then show ?case
    by (simp add: clone_loop_Cons allWellStored_cloneInto
        del: clone_loop.simps split: option.splits)
qed

lemma allWellStored_newEntity:
  "allWellStored w \<Longrightarrow> allWellStored (snd (newEntity w))"
  by (simp add: allWellStored_def wellStored_def newEntity_def Let_def)

lemma allWellStored_clone:
  assumes "allWellStored w"
  shows "allWellStored (snd (clone this w))"
proof -
  obtain n w1 where ne: "newEntity w = (n, w1)"
    by (cases "newEntity w")
  have w1: "allWellStored w1"
    using allWellStored_newEntity [OF assms] ne by simp
  obtain r w2 where lp: "clone_loop this n [0..<length (types this w1)] w1 = (r, w2)"
    by (cases "clone_loop this n [0..<length (types this w1)] w1")
  have w2: "allWellStored w2"
    using allWellStored_clone_loop [OF w1, of this n "[0..<length (types this w1)]"] lp by simp
  have "snd (clone this w) = w2 \<or> snd (clone this w) = w2\<lparr>unfollowed := True\<rparr>"
    using ne lp by (cases r) (simp_all add: clone_def)
  with w2 allWellStored_unfollowed [OF w2] show ?thesis
    by auto
qed

lemma removeKey_ctype: "ctype (heap (removeKey this k w) a) = ctype (heap w a)"
  by (simp add: removeKey_def step_defs Let_def split: Value.splits)

lemma removeKey_components:
  "components (entities (removeKey this k w) e) = components (entities w e) \<or>
   components (entities (removeKey this k w) e) = AList.delete k (components (entities w e))"
  by (simp add: removeKey_def step_defs Let_def split: Value.splits)

lemma allWellStored_removeKey:
  assumes "allWellStored w"
  shows "allWellStored (removeKey this k w)"
  unfolding allWellStored_def
proof
  fix e
  let ?P = "\<lambda>(k, a). a < heapNext w \<and> ctype (heap w a) = k \<and> k \<noteq> ''__proto__''"
  from assms have ws: "list_all ?P (components (entities w e))"
    by (simp add: allWellStored_def wellStored_def)
  then have "list_all ?P (AList.delete k (components (entities w e)))"
    by (rule list_all_delete)
  with ws removeKey_components [of this k w e]
  have "list_all ?P (components (entities (removeKey this k w) e))"
    by auto
  then show "wellStored e (removeKey this k w)"
    by (simp add: wellStored_def removeKey_ctype removeKey_counters)
qed

lemma allWellStored_initialize:
  "allWellStored w \<Longrightarrow> allWellStored (initialize e g w)"
  by (simp add: allWellStored_def wellStored_def initialize_def onInitialize_def emit_def Let_def)

lemma allWellStored_perform:
  assumes "allWellStored w" and "actionOk a w"
  shows "allWellStored (perform a w)"
proof (cases a)
  case New
  with assms show ?thesis by (simp add: allWellStored_newEntity)
next
  case (Add e arg)
  with assms show ?thesis
    by (cases arg) (simp_all add: addComponent_def allWellStored_addComponent_normal
        allWellStored_addComponent_prefab allWellStored_unfollowed Let_def)
next
  case (Remove e arg)
  with assms show ?thesis
    by (cases arg) (simp_all add: removeComponent_def allWellStored_removeKey)
next
  case (Init e g)
  with assms show ?thesis by (simp add: allWellStored_initialize)
next
  case (Clone e)
  with assms show ?thesis by (simp add: allWellStored_clone)
qed

lemma allWellStored_run:
  "allWellStored w \<Longrightarrow> runOk as w \<Longrightarrow> allWellStored (run as w)"
  by (induction as arbitrary: w) (simp_all add: allWellStored_perform)

lemma allWellStored_startWorld: "allWellStored startWorld"
  by (simp add: allWellStored_def wellStored_def startWorld_def)


end
